theory Spec2Isabelle
  imports Complex_Main "HOL-Library.AList"
begin

section \<open>Python values used by pacecalc.py\<close>

text \<open>
  A Python \<open>str\<close> is modelled as a \<open>string\<close> whose characters are the code points
  0 to 255. A Python \<open>float\<close> is modelled by \<open>pyfloat\<close>: a finite value carries a real
  number and arithmetic on finite values is exact, so binary rounding, overflow to infinity
  and the sign of zero are not represented; the infinities and NaN are, with the rules
  Python applies to them.
\<close>

datatype pyfloat = Fin real | PInf | NInf | NaN

datatype error =
    InputError string string
  | ValueError string
  | ZeroDivisionError
  | OverflowError

definition ebind :: "error + 'a \<Rightarrow> ('a \<Rightarrow> error + 'b) \<Rightarrow> error + 'b" where
  "ebind m f = (case m of Inl e \<Rightarrow> Inl e | Inr v \<Rightarrow> f v)"

subsection \<open>Float arithmetic\<close>

fun fadd :: "pyfloat \<Rightarrow> pyfloat \<Rightarrow> pyfloat" where
  "fadd (Fin x) (Fin y) = Fin (x + y)"
| "fadd NaN _ = NaN"
| "fadd _ NaN = NaN"
| "fadd PInf NInf = NaN"
| "fadd NInf PInf = NaN"
| "fadd PInf _ = PInf"
| "fadd _ PInf = PInf"
| "fadd NInf _ = NInf"
| "fadd _ NInf = NInf"

definition inf_signed :: "bool \<Rightarrow> pyfloat" where
  "inf_signed positive = (if positive then PInf else NInf)"

fun fmul :: "pyfloat \<Rightarrow> pyfloat \<Rightarrow> pyfloat" where
  "fmul (Fin x) (Fin y) = Fin (x * y)"
| "fmul NaN _ = NaN"
| "fmul _ NaN = NaN"
| "fmul (Fin x) PInf = (if x = 0 then NaN else inf_signed (0 < x))"
| "fmul (Fin x) NInf = (if x = 0 then NaN else inf_signed (x < 0))"
| "fmul PInf (Fin y) = (if y = 0 then NaN else inf_signed (0 < y))"
| "fmul NInf (Fin y) = (if y = 0 then NaN else inf_signed (y < 0))"
| "fmul PInf PInf = PInf"
| "fmul NInf NInf = PInf"
| "fmul PInf NInf = NInf"
| "fmul NInf PInf = NInf"

text \<open>Python's \<open>/\<close> on floats raises \<open>ZeroDivisionError\<close> whenever the divisor is zero.\<close>

fun fdiv_nz :: "pyfloat \<Rightarrow> pyfloat \<Rightarrow> pyfloat" where
  "fdiv_nz (Fin x) (Fin y) = Fin (x / y)"
| "fdiv_nz NaN _ = NaN"
| "fdiv_nz _ NaN = NaN"
| "fdiv_nz (Fin x) _ = Fin 0"
| "fdiv_nz PInf (Fin y) = inf_signed (0 < y)"
| "fdiv_nz NInf (Fin y) = inf_signed (y < 0)"
| "fdiv_nz _ _ = NaN"

definition fdiv :: "pyfloat \<Rightarrow> pyfloat \<Rightarrow> error + pyfloat" where
  "fdiv a b = (if b = Fin 0 then Inl ZeroDivisionError else Inr (fdiv_nz a b))"

fun flt :: "pyfloat \<Rightarrow> pyfloat \<Rightarrow> bool" where
  "flt (Fin x) (Fin y) = (x < y)"
| "flt NaN _ = False"
| "flt _ NaN = False"
| "flt NInf NInf = False"
| "flt NInf _ = True"
| "flt PInf _ = False"
| "flt (Fin x) PInf = True"
| "flt (Fin x) NInf = False"

definition fgt :: "pyfloat \<Rightarrow> pyfloat \<Rightarrow> bool" where
  "fgt a b = flt b a"

definition fne :: "pyfloat \<Rightarrow> pyfloat \<Rightarrow> bool" where
  "fne a b = (a = NaN \<or> b = NaN \<or> a \<noteq> b)"

text \<open>
  \<open>divmod(x, y)\<close> on floats, for a divisor \<open>y\<close> that is a nonzero finite literal (the source
  calls it with 1 and with 60 only): the floored quotient and the remainder; both are NaN
  when \<open>x\<close> is infinite or NaN.
\<close>

fun fdivmod :: "pyfloat \<Rightarrow> real \<Rightarrow> pyfloat \<times> pyfloat" where
  "fdivmod (Fin x) y = (Fin (of_int \<lfloor>x / y\<rfloor>), Fin (x - of_int \<lfloor>x / y\<rfloor> * y))"
| "fdivmod _ y = (NaN, NaN)"

text \<open>\<open>int(x)\<close> truncates towards zero and raises on NaN and on the infinities.\<close>

fun py_int :: "pyfloat \<Rightarrow> error + int" where
  "py_int (Fin x) = Inr (if 0 \<le> x then \<lfloor>x\<rfloor> else \<lceil>x\<rceil>)"
| "py_int NaN = Inl (ValueError ''cannot convert float NaN to integer'')"
| "py_int _ = Inl OverflowError"

subsection \<open>Strings\<close>

definition py_isspace :: "char \<Rightarrow> bool" where
  "py_isspace c = ((of_char c :: nat) \<in> {9, 10, 11, 12, 13, 28, 29, 30, 31, 32, 133, 160})"

definition strip :: "string \<Rightarrow> string" where
  "strip s = rev (dropWhile py_isspace (rev (dropWhile py_isspace s)))"

definition lower_char :: "char \<Rightarrow> char" where
  "lower_char c =
     (let n = (of_char c :: nat)
      in if (65 \<le> n \<and> n \<le> 90) \<or> (192 \<le> n \<and> n \<le> 222 \<and> n \<noteq> 215)
         then char_of (n + 32) else c)"

definition lower :: "string \<Rightarrow> string" where
  "lower s = map lower_char s"

definition endswith :: "string \<Rightarrow> string \<Rightarrow> bool" where
  "endswith s u = (length u \<le> length s \<and> drop (length s - length u) s = u)"

definition removesuffix :: "string \<Rightarrow> string \<Rightarrow> string" where
  "removesuffix s u = (if u \<noteq> [] \<and> endswith s u then take (length s - length u) s else s)"

text \<open>\<open>s.split(":")\<close>: the pieces between the colons, one more than there are colons.\<close>

fun split_colon :: "string \<Rightarrow> string list" where
  "split_colon [] = [[]]"
| "split_colon (c # cs) =
     (if c = CHR '':'' then [] # split_colon cs
      else (case split_colon cs of
              [] \<Rightarrow> [[c]]
            | p # ps \<Rightarrow> (c # p) # ps))"

definition is_digit :: "char \<Rightarrow> bool" where
  "is_digit c = (48 \<le> (of_char c :: nat) \<and> (of_char c :: nat) \<le> 57)"

definition digits_val :: "string \<Rightarrow> nat" where
  "digits_val ds = foldl (\<lambda>a c. 10 * a + ((of_char c :: nat) - 48)) 0 ds"

fun str_nat :: "nat \<Rightarrow> string" where
  "str_nat n =
     (if n < 10 then [char_of (48 + n)]
      else str_nat (n div 10) @ [char_of (48 + n mod 10)])"

declare str_nat.simps [simp del]

definition str_int :: "int \<Rightarrow> string" where
  "str_int i = (if i < 0 then CHR ''-'' # str_nat (nat (- i)) else str_nat (nat i))"

text \<open>The format specification \<open>02d\<close>: zero padding to width 2, the sign counted in the width.\<close>

definition zfill :: "nat \<Rightarrow> string \<Rightarrow> string" where
  "zfill w s = replicate (w - length s) CHR ''0'' @ s"

definition fmt_02d :: "int \<Rightarrow> string" where
  "fmt_02d i =
     (if i < 0 then CHR ''-'' # zfill 1 (str_nat (nat (- i))) else zfill 2 (str_nat (nat i)))"

subsection \<open>The builtin \<open>float(s)\<close>\<close>

text \<open>
  \<open>float\<close> strips surrounding whitespace (of the control characters only tab, line feed,
  vertical tab, form feed and carriage return), allows one underscore between two digits,
  and accepts an optional sign followed by \<open>inf\<close>, \<open>infinity\<close> or \<open>nan\<close> in any letter
  case, or by a decimal number with an optional exponent. Anything else raises
  \<open>ValueError\<close>.
\<close>

definition float_isspace :: "char \<Rightarrow> bool" where
  "float_isspace c = ((of_char c :: nat) \<in> {9, 10, 11, 12, 13, 32, 133, 160})"

definition float_strip :: "string \<Rightarrow> string" where
  "float_strip s = rev (dropWhile float_isspace (rev (dropWhile float_isspace s)))"

fun drop_underscores :: "char \<Rightarrow> string \<Rightarrow> string option" where
  "drop_underscores prev [] = (if prev = CHR ''_'' then None else Some [])"
| "drop_underscores prev (c # cs) =
     (if c = CHR ''_'' then (if is_digit prev then drop_underscores c cs else None)
      else if prev = CHR ''_'' \<and> \<not> is_digit c then None
      else map_option ((#) c) (drop_underscores c cs))"

definition ascii_lower :: "char \<Rightarrow> char" where
  "ascii_lower c =
     (if 65 \<le> (of_char c :: nat) \<and> (of_char c :: nat) \<le> 90
      then char_of ((of_char c :: nat) + 32) else c)"

definition scale10 :: "real \<Rightarrow> int \<Rightarrow> real" where
  "scale10 x e = (if 0 \<le> e then x * 10 ^ nat e else x / 10 ^ nat (- e))"

text \<open>The exponent part: nothing, or \<open>e\<close>/\<open>E\<close>, an optional sign and at least one digit.\<close>

definition parse_exponent :: "string \<Rightarrow> int option" where
  "parse_exponent s =
     (case s of
        [] \<Rightarrow> Some 0
      | c # r \<Rightarrow>
          if c = CHR ''e'' \<or> c = CHR ''E'' then
            (let (neg, ds) =
                   (case r of
                      [] \<Rightarrow> (False, [])
                    | d # r' \<Rightarrow>
                        if d = CHR ''-'' then (True, r')
                        else if d = CHR ''+'' then (False, r')
                        else (False, r))
             in if ds \<noteq> [] \<and> list_all is_digit ds
                then Some (if neg then - int (digits_val ds) else int (digits_val ds))
                else None)
          else None)"

text \<open>An unsigned decimal number: digits, an optional point and digits, an optional exponent.\<close>

definition parse_number :: "string \<Rightarrow> real option" where
  "parse_number s =
     (let ip = takeWhile is_digit s;
          r1 = dropWhile is_digit s;
          has_point = (r1 \<noteq> [] \<and> hd r1 = CHR ''.'');
          fp = (if has_point then takeWhile is_digit (tl r1) else []);
          r2 = (if has_point then dropWhile is_digit (tl r1) else r1)
      in if ip = [] \<and> fp = [] then None
         else (case parse_exponent r2 of
                 None \<Rightarrow> None
               | Some e \<Rightarrow>
                   Some (scale10 (real (digits_val ip)
                                  + real (digits_val fp) / 10 ^ length fp) e)))"

definition parse_unsigned :: "string \<Rightarrow> pyfloat option" where
  "parse_unsigned s =
     (if map ascii_lower s = ''inf'' \<or> map ascii_lower s = ''infinity'' then Some PInf
      else if map ascii_lower s = ''nan'' then Some NaN
      else map_option Fin (parse_number s))"

fun fneg :: "pyfloat \<Rightarrow> pyfloat" where
  "fneg (Fin x) = Fin (- x)"
| "fneg PInf = NInf"
| "fneg NInf = PInf"
| "fneg NaN = NaN"

definition parse_signed :: "string \<Rightarrow> pyfloat option" where
  "parse_signed s =
     (case s of
        [] \<Rightarrow> None
      | c # r \<Rightarrow>
          if c = CHR ''-'' then map_option fneg (parse_unsigned r)
          else if c = CHR ''+'' then parse_unsigned r
          else parse_unsigned s)"

definition float_str :: "string \<Rightarrow> error + pyfloat" where
  "float_str s =
     (case drop_underscores (CHR 0x00) (float_strip s) of
        None \<Rightarrow> Inl (ValueError ''could not convert string to float'')
      | Some t \<Rightarrow>
          (case parse_signed t of
             None \<Rightarrow> Inl (ValueError ''could not convert string to float'')
           | Some v \<Rightarrow> Inr v))"

section \<open>pacecalc.py\<close>

record RunningMetrics =
  distance_km :: pyfloat
  time_minutes :: pyfloat
  pace_min_per_km :: pyfloat
  speed_kmh :: pyfloat
  splits :: "(string \<times> string) list"
  projected_times :: "(string \<times> string) list"
  training_zones :: "(string \<times> string) list"

text \<open>
  The class constants. A \<open>dict\<close> is an association list in insertion order, which is the
  order in which Python iterates it.
\<close>

definition DISTANCE_UNITS :: "(string \<times> pyfloat) list" where
  "DISTANCE_UNITS =
     [(''mi'', Fin 1.609344),
      (''km'', Fin 1.0),
      (''k'', Fin 1.0),
      (''m'', Fin 42.195),
      (''marathon'', Fin 42.195),
      (''hm'', Fin 21.0975),
      (''half-marathon'', Fin 21.0975),
      (''10k'', Fin 10.0),
      (''5k'', Fin 5.0),
      (''1k'', Fin 1.0),
      (''400m'', Fin 0.4),
      (''800m'', Fin 0.8),
      (''1mi'', Fin 1.609344)]"

definition TRAINING_ZONES :: "(string \<times> real \<times> real) list" where
  "TRAINING_ZONES =
     [(''Easy'', 1.15, 1.25),
      (''Threshold'', 1.05, 1.15),
      (''Tempo'', 1.0, 1.05),
      (''VO2 Max'', 0.9, 1.0),
      (''Speed'', 0.8, 0.9)]"

subsection \<open>distance_str_to_km\<close>

text \<open>
  \<open>try: float(..) except ValueError: raise InputError(text, kind)\<close>: only a
  \<open>ValueError\<close> is caught.
\<close>

definition float_or_input_error :: "string \<Rightarrow> string \<Rightarrow> string \<Rightarrow> error + pyfloat" where
  "float_or_input_error s text kind =
     (case float_str s of
        Inl (ValueError _) \<Rightarrow> Inl (InputError text kind)
      | Inl e \<Rightarrow> Inl e
      | Inr v \<Rightarrow> Inr v)"

text \<open>
  The loop over the units: the first unit of the table that is a suffix of the text decides,
  by returning or by raising; \<open>None\<close> when the loop ends without a match.
\<close>

fun scan_units :: "(string \<times> pyfloat) list \<Rightarrow> string \<Rightarrow> (error + pyfloat) option" where
  "scan_units [] distance = None"
| "scan_units ((unit, multiplier) # rest) distance =
     (if endswith distance unit
      then Some (ebind (float_or_input_error (removesuffix distance unit) distance ''distance'')
                   (\<lambda>v. Inr (fmul v multiplier)))
      else scan_units rest distance)"

definition distance_str_to_km :: "string \<Rightarrow> error + pyfloat" where
  "distance_str_to_km distance0 =
     (let distance = strip (lower distance0)
      in case map_of DISTANCE_UNITS distance of
           Some v \<Rightarrow> Inr v
         | None \<Rightarrow>
             (case scan_units DISTANCE_UNITS distance of
                Some r \<Rightarrow> r
              | None \<Rightarrow> float_or_input_error distance distance ''distance''))"

subsection \<open>time_str_to_minutes\<close>

text \<open>
  One optional group \<open>(?:(\d+(?:\.\d+)?)L)?\<close> of the pattern, for the letter \<open>L\<close>: the
  captured text (\<open>None\<close> when the group does not take part) and the rest of the input.
  With \<open>with_point = False\<close> the group is \<open>(?:(\d+)L)?\<close>.
\<close>

definition match_group :: "bool \<Rightarrow> char \<Rightarrow> string \<Rightarrow> string option \<times> string" where
  "match_group with_point letter s =
     (let ip = takeWhile is_digit s;
          r1 = dropWhile is_digit s;
          fp = (case r1 of
                  [] \<Rightarrow> []
                | c # r \<Rightarrow> if with_point \<and> c = CHR ''.'' \<and> takeWhile is_digit r \<noteq> []
                           then c # takeWhile is_digit r else []);
          r2 = drop (length fp) r1
      in if ip \<noteq> [] \<and> r2 \<noteq> [] \<and> hd r2 = letter then (Some (ip @ fp), tl r2)
         else (None, s))"

text \<open>\<open>float(match.group(name) or 0)\<close>.\<close>

definition group_or_zero :: "string option \<Rightarrow> error + pyfloat" where
  "group_or_zero g =
     (case g of
        None \<Rightarrow> Inr (Fin 0)
      | Some t \<Rightarrow> if t = [] then Inr (Fin 0) else float_str t)"

definition parse_time_with_letters :: "string \<Rightarrow> error + pyfloat" where
  "parse_time_with_letters time =
     (let (h, r1) = match_group True CHR ''h'' time;
          (m, r2) = match_group True CHR ''m'' r1;
          (s, r3) = match_group False CHR ''s'' r2
      in if r3 = [] \<or> r3 = [CHR 0x0A] then
           ebind (group_or_zero h) (\<lambda>hours.
           ebind (group_or_zero m) (\<lambda>minutes.
           ebind (group_or_zero s) (\<lambda>seconds.
           ebind (fdiv seconds (Fin 60)) (\<lambda>sec_part.
             Inr (fadd (fadd (fmul hours (Fin 60)) minutes) sec_part)))))
         else Inl (InputError time ''time''))"

definition parse_time_with_colons :: "string \<Rightarrow> error + pyfloat" where
  "parse_time_with_colons time =
     (case split_colon time of
        [minutes, seconds] \<Rightarrow>
          ebind (float_str minutes) (\<lambda>mv.
          ebind (float_str seconds) (\<lambda>sv.
          ebind (fdiv sv (Fin 60)) (\<lambda>sec_part.
            Inr (fadd mv sec_part))))
      | [hours, minutes, seconds] \<Rightarrow>
          ebind (float_str hours) (\<lambda>hv.
          ebind (float_str minutes) (\<lambda>mv.
          ebind (float_str seconds) (\<lambda>sv.
          ebind (fdiv sv (Fin 60)) (\<lambda>sec_part.
            Inr (fadd (fadd (fmul hv (Fin 60)) mv) sec_part)))))
      | _ \<Rightarrow> Inl (InputError time ''time''))"

definition time_str_to_minutes :: "string \<Rightarrow> error + pyfloat" where
  "time_str_to_minutes time0 =
     (let time = strip time0
      in if \<exists>x \<in> set ''hms''. x \<in> set time then parse_time_with_letters time
         else if CHR '':'' \<in> set time then parse_time_with_colons time
         else float_or_input_error time time ''time'')"

subsection \<open>pace_str_to_minutes\<close>

definition pace_str_to_minutes :: "string \<Rightarrow> error + pyfloat" where
  "pace_str_to_minutes pace0 =
     (let pace = strip pace0
      in case (if CHR '':'' \<in> set pace then split_colon pace else []) of
           [minutes, seconds] \<Rightarrow>
             ebind (float_str minutes) (\<lambda>mv.
             ebind (float_str seconds) (\<lambda>sv.
             ebind (fdiv sv (Fin 60)) (\<lambda>sec_part.
               Inr (fadd mv sec_part))))
         | _ \<Rightarrow> float_or_input_error pace pace ''pace'')"

subsection \<open>minutes_to_time_str\<close>

definition minutes_to_time_str :: "pyfloat \<Rightarrow> bool \<Rightarrow> error + string" where
  "minutes_to_time_str minutes show_hours =
     (if flt minutes (Fin 60) \<or> \<not> show_hours then
        (let (mins, secs) = fdivmod minutes 1
         in ebind (py_int mins) (\<lambda>mi.
            ebind (py_int (fmul secs (Fin 60))) (\<lambda>si.
              Inr (str_int mi @ '':'' @ fmt_02d si))))
      else
        (let (hours, remaining_minutes) = fdivmod minutes 60;
             (mins, secs) = fdivmod remaining_minutes 1
         in ebind (py_int hours) (\<lambda>hi.
            ebind (py_int mins) (\<lambda>mi.
            ebind (py_int (fmul secs (Fin 60))) (\<lambda>si.
              Inr (str_int hi @ '':'' @ fmt_02d mi @ '':'' @ fmt_02d si))))))"

subsection \<open>Splits, projections and training zones\<close>

text \<open>
  A checkpoint of \<open>common_distances\<close> is the text Python prints for the literal
  (\<open>f"{dist}"\<close>) together with its value.
\<close>

definition split_distances :: "(string \<times> real) list" where
  "split_distances =
     [(''1'', 1), (''5'', 5), (''10'', 10), (''21.0975'', 21.0975), (''42.195'', 42.195)]"

definition projected_distances :: "(string \<times> real) list" where
  "projected_distances =
     [(''5'', 5), (''10'', 10), (''21.0975'', 21.0975), (''42.195'', 42.195)]"

fun splits_loop ::
  "(string \<times> real) list \<Rightarrow> pyfloat \<Rightarrow> (string \<times> string) list \<Rightarrow> error + (string \<times> string) list"
where
  "splits_loop [] pace_mins acc = Inr acc"
| "splits_loop ((label, d) # rest) pace_mins acc =
     ebind (minutes_to_time_str (fmul (Fin d) pace_mins) (10 \<le> d)) (\<lambda>t.
       splits_loop rest pace_mins (AList.update (label @ ''km'') t acc))"

definition calculate_splits :: "pyfloat \<Rightarrow> error + (string \<times> string) list" where
  "calculate_splits pace_mins = splits_loop split_distances pace_mins []"

fun projected_loop ::
  "(string \<times> real) list \<Rightarrow> pyfloat \<Rightarrow> pyfloat \<Rightarrow> (string \<times> string) list
     \<Rightarrow> error + (string \<times> string) list"
where
  "projected_loop [] distance pace_mins acc = Inr acc"
| "projected_loop ((label, d) # rest) distance pace_mins acc =
     (if fne (Fin d) distance then
        ebind (minutes_to_time_str (fmul (Fin d) pace_mins) (10 \<le> d)) (\<lambda>t.
          projected_loop rest distance pace_mins (AList.update (label @ ''km'') t acc))
      else projected_loop rest distance pace_mins acc)"

definition calculate_projected_times ::
  "pyfloat \<Rightarrow> pyfloat \<Rightarrow> pyfloat \<Rightarrow> error + (string \<times> string) list" where
  "calculate_projected_times distance time_mins pace_mins =
     projected_loop projected_distances distance pace_mins []"

fun zones_loop ::
  "(string \<times> real \<times> real) list \<Rightarrow> pyfloat \<Rightarrow> (string \<times> string) list
     \<Rightarrow> error + (string \<times> string) list"
where
  "zones_loop [] threshold_pace acc = Inr acc"
| "zones_loop ((zone_name, min_mult, max_mult) # rest) threshold_pace acc =
     ebind (minutes_to_time_str (fmul threshold_pace (Fin min_mult)) False) (\<lambda>lo.
     ebind (minutes_to_time_str (fmul threshold_pace (Fin max_mult)) False) (\<lambda>hi.
       zones_loop rest threshold_pace (AList.update zone_name (lo @ '' - '' @ hi) acc)))"

definition calculate_training_zones :: "pyfloat \<Rightarrow> error + (string \<times> string) list" where
  "calculate_training_zones threshold_pace = zones_loop TRAINING_ZONES threshold_pace []"

subsection \<open>calculate_metrics\<close>

text \<open>An argument is used when it is truthy: neither \<open>None\<close> nor the empty string.\<close>

definition truthy :: "string option \<Rightarrow> bool" where
  "truthy a = (a \<noteq> None \<and> a \<noteq> Some [])"

definition exactly_two_msg :: string where
  "exactly_two_msg = ''Exactly two of distance, time, and pace must be provided''"

text \<open>The three branches that establish \<open>(dist_km, time_mins, pace_mins)\<close>.\<close>

definition establish ::
  "string option \<Rightarrow> string option \<Rightarrow> string option \<Rightarrow> error + (pyfloat \<times> pyfloat \<times> pyfloat)" where
  "establish distance time pace =
     (if truthy distance \<and> truthy time \<and> \<not> truthy pace then
        ebind (distance_str_to_km (the distance)) (\<lambda>dist_km.
        ebind (time_str_to_minutes (the time)) (\<lambda>time_mins.
        ebind (fdiv time_mins dist_km) (\<lambda>pace_mins.
          Inr (dist_km, time_mins, pace_mins))))
      else if truthy distance \<and> truthy pace \<and> \<not> truthy time then
        ebind (distance_str_to_km (the distance)) (\<lambda>dist_km.
        ebind (pace_str_to_minutes (the pace)) (\<lambda>pace_mins.
          Inr (dist_km, fmul dist_km pace_mins, pace_mins)))
      else if truthy time \<and> truthy pace \<and> \<not> truthy distance then
        ebind (time_str_to_minutes (the time)) (\<lambda>time_mins.
        ebind (pace_str_to_minutes (the pace)) (\<lambda>pace_mins.
        ebind (fdiv time_mins pace_mins) (\<lambda>dist_km.
          Inr (dist_km, time_mins, pace_mins))))
      else Inl (ValueError exactly_two_msg))"

definition calculate_metrics ::
  "string option \<Rightarrow> string option \<Rightarrow> string option \<Rightarrow> error + RunningMetrics" where
  "calculate_metrics distance time pace =
     ebind (establish distance time pace) (\<lambda>(dist_km, time_mins, pace_mins).
     ebind (if fgt pace_mins (Fin 0) then fdiv (Fin 60) pace_mins else Inr (Fin 0)) (\<lambda>speed.
     ebind (calculate_splits pace_mins) (\<lambda>sp.
     ebind (calculate_projected_times dist_km time_mins pace_mins) (\<lambda>pr.
     ebind (calculate_training_zones pace_mins) (\<lambda>tz.
       Inr \<lparr>distance_km = dist_km, time_minutes = time_mins, pace_min_per_km = pace_mins,
            speed_kmh = speed, splits = sp, projected_times = pr, training_zones = tz\<rparr>)))))"

section \<open>Properties\<close>

subsection \<open>Auxiliary facts\<close>

lemma empty_time_example:
  "calculate_metrics (Some ''5km'') (Some []) (Some ''4:30'') =
     Inr \<lparr>distance_km = Fin 5, time_minutes = Fin 22.5, pace_min_per_km = Fin 4.5,
          speed_kmh = Fin (40 / 3),
          splits = [(''1km'', ''4:30''), (''5km'', ''22:30''), (''10km'', ''45:00''),
                    (''21.0975km'', ''1:34:56''), (''42.195km'', ''3:09:52'')],
          projected_times = [(''10km'', ''45:00''), (''21.0975km'', ''1:34:56''),
                             (''42.195km'', ''3:09:52'')],
          training_zones = [(''Easy'', ''5:10 - 5:37''), (''Threshold'', ''4:43 - 5:10''),
                            (''Tempo'', ''4:30 - 4:43''), (''VO2 Max'', ''4:03 - 4:30''),
                            (''Speed'', ''3:36 - 4:03'')]\<rparr>"
  by code_simp

lemma ten_km_example:
  "calculate_metrics (Some ''10km'') (Some ''45:00'') None =
     Inr \<lparr>distance_km = Fin 10, time_minutes = Fin 45, pace_min_per_km = Fin 4.5,
          speed_kmh = Fin (40 / 3),
          splits = [(''1km'', ''4:30''), (''5km'', ''22:30''), (''10km'', ''45:00''),
                    (''21.0975km'', ''1:34:56''), (''42.195km'', ''3:09:52'')],
          projected_times = [(''5km'', ''22:30''), (''21.0975km'', ''1:34:56''),
                             (''42.195km'', ''3:09:52'')],
          training_zones = [(''Easy'', ''5:10 - 5:37''), (''Threshold'', ''4:43 - 5:10''),
                            (''Tempo'', ''4:30 - 4:43''), (''VO2 Max'', ''4:03 - 4:30''),
                            (''Speed'', ''3:36 - 4:03'')]\<rparr>"
  by code_simp




lemma distance_empty: "distance_str_to_km [] = Inl (InputError [] ''distance'')"
  by code_simp
lemma time_empty: "time_str_to_minutes [] = Inl (InputError [] ''time'')"
  by code_simp
lemma pace_empty: "pace_str_to_minutes [] = Inl (InputError [] ''pace'')"
  by code_simp

lemma truthy_distance: "distance_str_to_km d = Inr v \<Longrightarrow> truthy (Some d)"
  using distance_empty by (auto simp add: truthy_def)
lemma truthy_time: "time_str_to_minutes t = Inr v \<Longrightarrow> truthy (Some t)"
  using time_empty by (auto simp add: truthy_def)
lemma truthy_pace: "pace_str_to_minutes p = Inr v \<Longrightarrow> truthy (Some p)"
  using pace_empty by (auto simp add: truthy_def)







subsection \<open>The derivation\<close>



text \<open>
  Claim C2, as amended. Presence is decided by truthiness: when the number of arguments that
  are neither \<open>None\<close> nor the empty string is not two (zero, one or three),
  \<open>calculate_metrics\<close> raises \<open>ValueError\<close> with the message that exactly two must be
  provided.
\<close>

theorem wrong_count_raises:
  assumes "length (filter truthy [distance, time, pace]) \<noteq> 2"
  shows "calculate_metrics distance time pace = Inl (ValueError exactly_two_msg)"
  using assms by (auto simp add: calculate_metrics_def establish_def ebind_def split: if_splits)

theorem wrong_count_raises_witness:
  "length (filter truthy [Some ''5km'', Some ''25:00'', Some ''5:00'']) \<noteq> 2
   \<and> calculate_metrics (Some ''5km'') (Some ''25:00'') (Some ''5:00'')
       = Inl (ValueError exactly_two_msg)"
proof -
  have h: "length (filter truthy [Some ''5km'', Some ''25:00'', Some ''5:00'']) \<noteq> 2"
    by (simp add: truthy_def)
  show ?thesis using h wrong_count_raises [OF h] by simp
qed

text \<open>
  Claim C2 as stated, on three arguments that are all different from \<open>None\<close>, one of them
  the empty string: the call returns a record instead of raising.
\<close>

theorem three_supplied_counterexample:
  "Some ''5km'' \<noteq> None \<and> Some [] \<noteq> (None :: string option) \<and> Some ''4:30'' \<noteq> None
   \<and> calculate_metrics (Some ''5km'') (Some []) (Some ''4:30'')
       \<noteq> Inl (ValueError exactly_two_msg)"
  using empty_time_example by simp

text \<open>
  Claim C3. When the parsed distance is zero and a time is given, or the parsed pace is zero
  and a time is given, the division raises \<open>ZeroDivisionError\<close>: no record is returned and
  no infinity is produced.
\<close>

theorem zero_divisor_raises:
  "(distance_str_to_km d = Inr (Fin 0) \<and> time_str_to_minutes t = Inr tv \<longrightarrow>
      calculate_metrics (Some d) (Some t) None = Inl ZeroDivisionError)
   \<and> (time_str_to_minutes t = Inr tv \<and> pace_str_to_minutes p = Inr (Fin 0) \<longrightarrow>
      calculate_metrics None (Some t) (Some p) = Inl ZeroDivisionError)"
  using truthy_distance [of d] truthy_time [of t] truthy_pace [of p]
  by (auto simp add: calculate_metrics_def establish_def ebind_def fdiv_def truthy_def)

theorem zero_divisor_raises_witness:
  "distance_str_to_km ''0'' = Inr (Fin 0) \<and> time_str_to_minutes ''10'' = Inr (Fin 10)
   \<and> pace_str_to_minutes ''0'' = Inr (Fin 0)
   \<and> calculate_metrics (Some ''0'') (Some ''10'') None = Inl ZeroDivisionError
   \<and> calculate_metrics None (Some ''10'') (Some ''0'') = Inl ZeroDivisionError"
proof -
  have d: "distance_str_to_km ''0'' = Inr (Fin 0)" by code_simp
  have t: "time_str_to_minutes ''10'' = Inr (Fin 10)" by code_simp
  have p: "pace_str_to_minutes ''0'' = Inr (Fin 0)" by code_simp
  show ?thesis
    using zero_divisor_raises [where d = "''0''" and t = "''10''" and tv = "Fin 10"
        and p = "''0''"] d t p
    by simp
qed



subsection \<open>Projected times\<close>

text \<open>
  Claim C7. In the record of a successful call, \<open>projected_times\<close> lists, in the order of
  the table, exactly the checkpoints 5, 10, 21.0975 and 42.195 that differ from the computed
  distance, each under its label and with the text \<open>minutes_to_time_str\<close> gives for
  checkpoint * pace, hours shown from 10 km on.
\<close>

theorem projections_skip_input_distance:
  assumes "calculate_metrics distance time pace = Inr r"
  shows "map (\<lambda>(l, s). (l, Inr s)) (projected_times r) =
         map (\<lambda>(l, c). (l @ ''km'', minutes_to_time_str (fmul (Fin c) (pace_min_per_km r)) (10 \<le> c)))
             (filter (\<lambda>(l, c). fne (Fin c) (distance_km r)) projected_distances)"
proof -
  from assms obtain dk tm pm pr where
      pr: "calculate_projected_times dk tm pm = Inr pr"
      and r: "projected_times r = pr" "distance_km r = dk" "pace_min_per_km r = pm"
    by (auto simp add: calculate_metrics_def ebind_def split: sum.splits prod.splits)
  from pr show ?thesis unfolding r
    unfolding calculate_projected_times_def projected_distances_def
    by (auto simp add: ebind_def split: sum.splits if_splits)
qed

theorem projections_skip_input_distance_witness:
  "\<exists>r. calculate_metrics (Some ''10km'') (Some ''45:00'') None = Inr r
     \<and> map fst (projected_times r) = [''5km'', ''21.0975km'', ''42.195km'']
     \<and> map (\<lambda>(l, s). (l, Inr s)) (projected_times r) =
         map (\<lambda>(l, c). (l @ ''km'', minutes_to_time_str (fmul (Fin c) (pace_min_per_km r)) (10 \<le> c)))
             (filter (\<lambda>(l, c). fne (Fin c) (distance_km r)) projected_distances)"
  using projections_skip_input_distance [OF ten_km_example] ten_km_example
  by simp

subsection \<open>Parsing\<close>

text \<open>
  Claim C4. The colon branch of \<open>time_str_to_minutes\<close> converts each part with \<open>float\<close>
  outside any \<open>try\<close>: on \<open>1:xx\<close> the \<open>ValueError\<close> of \<open>float\<close> escapes, not an
  \<open>InputError\<close>.
\<close>

theorem time_colon_bad_part:
  "time_str_to_minutes ''1:xx'' = Inl (ValueError ''could not convert string to float'')"
  by code_simp

theorem time_colon_bad_part_witness:
  "time_str_to_minutes ''1:xx'' \<noteq> Inl (InputError ''1:xx'' ''time'')"
  using time_colon_bad_part by simp

text \<open>
  Claim C8. \<open>10k\<close> and \<open>5k\<close> are keys of the unit table, so \<open>distance_str_to_km\<close> returns
  their table values 10 and 5 before any suffix is looked at.
\<close>

theorem preset_tokens:
  "distance_str_to_km ''10k'' = Inr (Fin 10) \<and> distance_str_to_km ''5k'' = Inr (Fin 5)
   \<and> map_of DISTANCE_UNITS ''10k'' = Some (Fin 10) \<and> map_of DISTANCE_UNITS ''5k'' = Some (Fin 5)"
  by code_simp

theorem preset_tokens_witness:
  "distance_str_to_km ''10k'' = Inr (Fin 10)"
  using preset_tokens by simp

text \<open>
  Claim C10. A text that, lowered and stripped, is \<open>v\<close> followed by \<open>m\<close>, is not a key of
  the table and does not end in one of the earlier units \<open>mi\<close>, \<open>km\<close>, \<open>k\<close>, with \<open>v\<close>
  accepted by \<open>float\<close>, is read as \<open>v\<close> marathons: the result is the value of \<open>v\<close> times
  42.195. So \<open>100m\<close> is 4219.5 km.
\<close>

theorem single_m_is_marathon:
  "(strip (lower s) = v @ ''m'' \<and> v @ ''m'' \<notin> set (map fst DISTANCE_UNITS)
      \<and> \<not> endswith (v @ ''m'') ''mi'' \<and> \<not> endswith (v @ ''m'') ''km''
      \<and> \<not> endswith (v @ ''m'') ''k'' \<and> float_str v = Inr x
    \<longrightarrow> distance_str_to_km s = Inr (fmul x (Fin 42.195)))
   \<and> distance_str_to_km ''100m'' = Inr (Fin 4219.5)"
proof (intro conjI impI)
  assume a: "strip (lower s) = v @ ''m'' \<and> v @ ''m'' \<notin> set (map fst DISTANCE_UNITS)
      \<and> \<not> endswith (v @ ''m'') ''mi'' \<and> \<not> endswith (v @ ''m'') ''km''
      \<and> \<not> endswith (v @ ''m'') ''k'' \<and> float_str v = Inr x"
  then have m: "map_of DISTANCE_UNITS (v @ ''m'') = None"
    by (simp add: map_of_eq_None_iff)
  have e: "endswith (v @ ''m'') ''m''" by (simp add: endswith_def)
  have rs: "removesuffix (v @ ''m'') ''m'' = v" by (simp add: removesuffix_def endswith_def)
  have "scan_units DISTANCE_UNITS (v @ ''m'') = Some (Inr (fmul x (Fin 42.195)))"
    using a e rs by (simp add: DISTANCE_UNITS_def float_or_input_error_def ebind_def)
  then show "distance_str_to_km s = Inr (fmul x (Fin 42.195))"
    using a m by (simp add: distance_str_to_km_def)
next
  show "distance_str_to_km ''100m'' = Inr (Fin 4219.5)" by code_simp
qed

theorem single_m_is_marathon_witness:
  "strip (lower ''3m'') = ''3'' @ ''m'' \<and> ''3'' @ ''m'' \<notin> set (map fst DISTANCE_UNITS)
   \<and> \<not> endswith (''3'' @ ''m'') ''mi'' \<and> \<not> endswith (''3'' @ ''m'') ''km''
   \<and> \<not> endswith (''3'' @ ''m'') ''k'' \<and> float_str ''3'' = Inr (Fin 3)
   \<and> distance_str_to_km ''3m'' = Inr (fmul (Fin 3) (Fin 42.195))"
proof -
  have h: "strip (lower ''3m'') = ''3'' @ ''m'' \<and> ''3'' @ ''m'' \<notin> set (map fst DISTANCE_UNITS)
      \<and> \<not> endswith (''3'' @ ''m'') ''mi'' \<and> \<not> endswith (''3'' @ ''m'') ''km''
      \<and> \<not> endswith (''3'' @ ''m'') ''k'' \<and> float_str ''3'' = Inr (Fin 3)"
    by code_simp
  show ?thesis
    using h single_m_is_marathon [where s = "''3m''" and v = "''3''" and x = "Fin 3"]
    by blast
qed

subsection \<open>Formatting\<close>




subsection \<open>Sign of the parsed values\<close>

text \<open>
  None of the three parsers checks the range of what \<open>float\<close> returns. The sign of a
  result can only come from a minus sign in the text: the facts below follow a text without
  one through \<open>float\<close> and through the arithmetic of each parser.
\<close>

lemma scale10_nonneg: "0 \<le> x \<Longrightarrow> 0 \<le> scale10 x e"
  by (simp add: scale10_def)

lemma parse_number_nonneg: "parse_number s = Some x \<Longrightarrow> 0 \<le> x"
  by (auto simp add: parse_number_def Let_def scale10_nonneg split: if_splits option.splits)

lemma parse_unsigned_not_negative: "parse_unsigned s = Some v \<Longrightarrow> \<not> flt v (Fin 0)"
  by (auto simp add: parse_unsigned_def dest: parse_number_nonneg split: if_splits)

lemma parse_signed_not_negative:
  "CHR ''-'' \<notin> set s \<Longrightarrow> parse_signed s = Some v \<Longrightarrow> \<not> flt v (Fin 0)"
  by (auto simp add: parse_signed_def dest: parse_unsigned_not_negative split: list.splits if_splits)

lemma drop_underscores_subset: "drop_underscores prev s = Some t \<Longrightarrow> set t \<subseteq> set s"
proof (induction prev s arbitrary: t rule: drop_underscores.induct)
  case (1 prev)
  then show ?case by (simp split: if_splits)
next
  case (2 prev c cs)
  show ?case
  proof (cases "c = CHR ''_''")
    case True
    with 2 show ?thesis by (auto split: if_splits)
  next
    case False
    with "2.prems" obtain t' where "drop_underscores c cs = Some t'" "t = c # t'"
      by (auto split: if_splits)
    with 2 False show ?thesis by (auto split: if_splits)
  qed
qed

lemma float_strip_subset: "set (float_strip s) \<subseteq> set s"
  unfolding float_strip_def by (metis set_dropWhileD set_rev subsetI)

lemma strip_subset: "set (strip s) \<subseteq> set s"
  unfolding strip_def by (metis set_dropWhileD set_rev subsetI)

lemma float_str_not_negative:
  assumes "CHR ''-'' \<notin> set s" and "float_str s = Inr v"
  shows "\<not> flt v (Fin 0)"
proof -
  from assms(2) obtain t where t: "drop_underscores (CHR 0x00) (float_strip s) = Some t"
      and v: "parse_signed t = Some v"
    by (auto simp add: float_str_def split: option.splits)
  have "set t \<subseteq> set s"
    using drop_underscores_subset [OF t] float_strip_subset [of s] by blast
  with assms(1) have "CHR ''-'' \<notin> set t" by blast
  then show ?thesis using v by (rule parse_signed_not_negative)
qed

lemma float_or_input_error_not_negative:
  "CHR ''-'' \<notin> set s \<Longrightarrow> float_or_input_error s text kind = Inr v \<Longrightarrow> \<not> flt v (Fin 0)"
  by (auto simp add: float_or_input_error_def dest: float_str_not_negative
      split: sum.splits error.splits)

lemma fmul_not_negative: "\<not> flt a (Fin 0) \<Longrightarrow> 0 \<le> c \<Longrightarrow> \<not> flt (fmul a (Fin c)) (Fin 0)"
  by (cases a) (auto simp add: inf_signed_def zero_le_mult_iff not_less)

lemma fadd_not_negative: "\<not> flt a (Fin 0) \<Longrightarrow> \<not> flt b (Fin 0) \<Longrightarrow> \<not> flt (fadd a b) (Fin 0)"
  by (cases a; cases b) auto

lemma fdiv_not_negative:
  "\<not> flt a (Fin 0) \<Longrightarrow> fdiv a (Fin 60) = Inr b \<Longrightarrow> \<not> flt b (Fin 0)"
  by (cases a) (auto simp add: fdiv_def inf_signed_def)

lemma char_of_shift_not_minus:
  assumes "(65 \<le> n \<and> n \<le> 90) \<or> (192 \<le> n \<and> n \<le> 222)"
  shows "char_of (n + 32 :: nat) \<noteq> CHR ''-''"
proof
  assume "char_of (n + 32) = CHR ''-''"
  then have "(of_char (char_of (n + 32)) :: nat) = of_char CHR ''-''" by (rule arg_cong)
  then have "(n + 32) mod 256 = 45" by (simp add: of_char_of)
  moreover have "n + 32 < 256" using assms by linarith
  ultimately have "n + 32 = 45" by simp
  with assms show False by linarith
qed

lemma lower_char_minus:
  assumes "lower_char c = CHR ''-''"
  shows "c = CHR ''-''"
proof (cases "(65 \<le> (of_char c :: nat) \<and> (of_char c :: nat) \<le> 90)
     \<or> (192 \<le> (of_char c :: nat) \<and> (of_char c :: nat) \<le> 222 \<and> (of_char c :: nat) \<noteq> 215)")
  case True
  then have "lower_char c = char_of ((of_char c :: nat) + 32)"
    unfolding lower_char_def Let_def by (rule if_P)
  moreover have "char_of ((of_char c :: nat) + 32) \<noteq> CHR ''-''"
    using True by (intro char_of_shift_not_minus) blast
  ultimately show ?thesis using assms by simp
next
  case False
  then have "lower_char c = c"
    unfolding lower_char_def Let_def by (rule if_not_P)
  with assms show ?thesis by simp
qed

lemma lower_no_minus: "CHR ''-'' \<notin> set s \<Longrightarrow> CHR ''-'' \<notin> set (lower s)"
  unfolding lower_def by (metis (no_types) imageE lower_char_minus list.set_map)


lemma split_colon_nonempty: "split_colon s \<noteq> []"
  by (induction s) (auto split: list.splits)

lemma split_colon_subset: "p \<in> set (split_colon s) \<Longrightarrow> set p \<subseteq> set s"
proof (induction s arbitrary: p)
  case Nil
  then show ?case by simp
next
  case (Cons c cs)
  then show ?case by (fastforce split: if_splits list.splits)
qed

lemma tl_subset: "set (tl xs) \<subseteq> set xs"
  by (cases xs) auto

lemma match_group_subset:
  assumes "match_group b l s = (g, r)"
  shows "set r \<subseteq> set s \<and> (\<forall>t. g = Some t \<longrightarrow> set t \<subseteq> set s)"
proof -
  define ip where "ip = takeWhile is_digit s"
  define r1 where "r1 = dropWhile is_digit s"
  define fp where "fp = (case r1 of [] \<Rightarrow> []
              | c # r \<Rightarrow> if b \<and> c = CHR ''.'' \<and> takeWhile is_digit r \<noteq> []
                         then c # takeWhile is_digit r else [])"
  have r1: "set r1 \<subseteq> set s" unfolding r1_def by (auto dest: set_dropWhileD)
  have ip: "set ip \<subseteq> set s" unfolding ip_def by (auto dest: set_takeWhileD)
  have fp: "set fp \<subseteq> set r1" unfolding fp_def by (cases r1) (auto dest: set_takeWhileD)
  have "set (tl (drop (length fp) r1)) \<subseteq> set (drop (length fp) r1)" by (rule tl_subset)
  also have "\<dots> \<subseteq> set r1" by (rule set_drop_subset)
  finally have r2: "set (tl (drop (length fp) r1)) \<subseteq> set s" using r1 by blast
  have ipfp: "set (ip @ fp) \<subseteq> set s" using ip fp r1 by auto
  from assms have "(g = Some (ip @ fp) \<and> r = tl (drop (length fp) r1)) \<or> (g = None \<and> r = s)"
    unfolding match_group_def Let_def ip_def fp_def r1_def by (simp split: if_splits)
  then show ?thesis using r2 ipfp by blast
qed

lemma group_or_zero_not_negative:
  "(\<forall>t. g = Some t \<longrightarrow> CHR ''-'' \<notin> set t) \<Longrightarrow> group_or_zero g = Inr v \<Longrightarrow> \<not> flt v (Fin 0)"
  by (auto simp add: group_or_zero_def dest: float_str_not_negative split: option.splits if_splits)


lemma letters_not_negative:
  assumes "CHR ''-'' \<notin> set s" and "parse_time_with_letters s = Inr v"
  shows "\<not> flt v (Fin 0)"
proof -
  obtain h r1 where g1: "match_group True CHR ''h'' s = (h, r1)" by (cases "match_group True CHR ''h'' s")
  obtain m r2 where g2: "match_group True CHR ''m'' r1 = (m, r2)" by (cases "match_group True CHR ''m'' r1")
  obtain sc r3 where g3: "match_group False CHR ''s'' r2 = (sc, r3)" by (cases "match_group False CHR ''s'' r2")
  note s1 = match_group_subset [OF g1] and s2 = match_group_subset [OF g2]
    and s3 = match_group_subset [OF g3]
  have nh: "\<forall>t. h = Some t \<longrightarrow> CHR ''-'' \<notin> set t" using s1 assms(1) by blast
  have nm: "\<forall>t. m = Some t \<longrightarrow> CHR ''-'' \<notin> set t" using s1 s2 assms(1) by blast
  have ns: "\<forall>t. sc = Some t \<longrightarrow> CHR ''-'' \<notin> set t" using s1 s2 s3 assms(1) by blast
  from assms(2) obtain hv mv sv sp where
      hv: "group_or_zero h = Inr hv" and mv: "group_or_zero m = Inr mv"
      and sv: "group_or_zero sc = Inr sv" and sp: "fdiv sv (Fin 60) = Inr sp"
      and v: "v = fadd (fadd (fmul hv (Fin 60)) mv) sp"
    by (auto simp add: parse_time_with_letters_def g1 g2 g3 ebind_def split: if_splits sum.splits)
  have "\<not> flt (fmul hv (Fin 60)) (Fin 0)"
    using group_or_zero_not_negative [OF nh hv] by (simp add: fmul_not_negative)
  moreover have "\<not> flt mv (Fin 0)" using group_or_zero_not_negative [OF nm mv] .
  moreover have "\<not> flt sp (Fin 0)"
    using group_or_zero_not_negative [OF ns sv] sp by (rule fdiv_not_negative)
  ultimately show ?thesis unfolding v by (simp add: fadd_not_negative)
qed

lemma min_sec_not_negative:
  assumes "CHR ''-'' \<notin> set a" and "CHR ''-'' \<notin> set b"
    and "ebind (float_str a) (\<lambda>mv. ebind (float_str b) (\<lambda>sv.
           ebind (fdiv sv (Fin 60)) (\<lambda>sec_part. Inr (fadd mv sec_part)))) = Inr v"
  shows "\<not> flt v (Fin 0)"
proof -
  from assms(3) obtain mv sv sp where mv: "float_str a = Inr mv" and sv: "float_str b = Inr sv"
      and sp: "fdiv sv (Fin 60) = Inr sp" and v: "v = fadd mv sp"
    by (auto simp add: ebind_def split: sum.splits)
  have "\<not> flt mv (Fin 0)" using assms(1) mv by (rule float_str_not_negative)
  moreover have "\<not> flt sp (Fin 0)"
    using float_str_not_negative [OF assms(2) sv] sp by (rule fdiv_not_negative)
  ultimately show ?thesis unfolding v by (rule fadd_not_negative)
qed

lemma hour_min_sec_not_negative:
  assumes "CHR ''-'' \<notin> set h" and "CHR ''-'' \<notin> set a" and "CHR ''-'' \<notin> set b"
    and "ebind (float_str h) (\<lambda>hv. ebind (float_str a) (\<lambda>mv. ebind (float_str b) (\<lambda>sv.
           ebind (fdiv sv (Fin 60)) (\<lambda>sec_part.
             Inr (fadd (fadd (fmul hv (Fin 60)) mv) sec_part))))) = Inr v"
  shows "\<not> flt v (Fin 0)"
proof -
  from assms(4) obtain hv mv sv sp where hv: "float_str h = Inr hv"
      and mv: "float_str a = Inr mv" and sv: "float_str b = Inr sv"
      and sp: "fdiv sv (Fin 60) = Inr sp" and v: "v = fadd (fadd (fmul hv (Fin 60)) mv) sp"
    by (auto simp add: ebind_def split: sum.splits)
  have "\<not> flt (fmul hv (Fin 60)) (Fin 0)"
    using float_str_not_negative [OF assms(1) hv] by (simp add: fmul_not_negative)
  moreover have "\<not> flt mv (Fin 0)" using assms(2) mv by (rule float_str_not_negative)
  moreover have "\<not> flt sp (Fin 0)"
    using float_str_not_negative [OF assms(3) sv] sp by (rule fdiv_not_negative)
  ultimately show ?thesis unfolding v by (simp add: fadd_not_negative)
qed

lemma colons_not_negative:
  assumes "CHR ''-'' \<notin> set s" and "parse_time_with_colons s = Inr v"
  shows "\<not> flt v (Fin 0)"
proof -
  have parts: "\<And>p. p \<in> set (split_colon s) \<Longrightarrow> CHR ''-'' \<notin> set p"
    using split_colon_subset assms(1) by blast
  consider (two) a b where "split_colon s = [a, b]"
    | (three) h a b where "split_colon s = [h, a, b]"
    | (other) "\<forall>a b. split_colon s \<noteq> [a, b]" "\<forall>h a b. split_colon s \<noteq> [h, a, b]"
    by blast
  then show ?thesis
  proof cases
    case two
    then have na: "CHR ''-'' \<notin> set a" and nb: "CHR ''-'' \<notin> set b" using parts by simp_all
    from assms(2) two show ?thesis
      by (intro min_sec_not_negative [OF na nb]) (simp add: parse_time_with_colons_def)
  next
    case three
    then have nh: "CHR ''-'' \<notin> set h" and na: "CHR ''-'' \<notin> set a"
      and nb: "CHR ''-'' \<notin> set b"
      using parts by simp_all
    from assms(2) three show ?thesis
      by (intro hour_min_sec_not_negative [OF nh na nb]) (simp add: parse_time_with_colons_def)
  next
    case other
    then have "parse_time_with_colons s = Inl (InputError s ''time'')"
      by (auto simp add: parse_time_with_colons_def split: list.splits)
    with assms(2) show ?thesis by simp
  qed
qed

lemma time_not_negative:
  assumes "CHR ''-'' \<notin> set s" and "time_str_to_minutes s = Inr v"
  shows "\<not> flt v (Fin 0)"
proof -
  have n: "CHR ''-'' \<notin> set (strip s)" using assms(1) strip_subset by blast
  from assms(2) have "parse_time_with_letters (strip s) = Inr v
      \<or> parse_time_with_colons (strip s) = Inr v
      \<or> float_or_input_error (strip s) (strip s) ''time'' = Inr v"
    by (simp add: time_str_to_minutes_def Let_def split: if_splits)
  then show ?thesis
    using n letters_not_negative colons_not_negative float_or_input_error_not_negative by blast
qed

lemma pace_not_negative:
  assumes "CHR ''-'' \<notin> set s" and "pace_str_to_minutes s = Inr v"
  shows "\<not> flt v (Fin 0)"
proof -
  have n: "CHR ''-'' \<notin> set (strip s)" using assms(1) strip_subset by blast
  have parts: "\<And>p. p \<in> set (split_colon (strip s)) \<Longrightarrow> CHR ''-'' \<notin> set p"
    using split_colon_subset n by blast
  let ?parts = "if CHR '':'' \<in> set (strip s) then split_colon (strip s) else []"
  show ?thesis
  proof (cases "\<exists>a b. ?parts = [a, b]")
    case True
    then obtain a b where ab: "?parts = [a, b]" by blast
    then have sc: "split_colon (strip s) = [a, b]" by (simp split: if_splits)
    then have na: "CHR ''-'' \<notin> set a" and nb: "CHR ''-'' \<notin> set b" using parts by simp_all
    from assms(2) ab show ?thesis
      by (intro min_sec_not_negative [OF na nb]) (simp add: pace_str_to_minutes_def Let_def)
  next
    case False
    then have "pace_str_to_minutes s = float_or_input_error (strip s) (strip s) ''pace''"
      unfolding pace_str_to_minutes_def Let_def by (auto split: list.splits)
    then show ?thesis using assms(2) n float_or_input_error_not_negative by metis
  qed
qed

lemma scan_units_not_negative:
  assumes "CHR ''-'' \<notin> set t" and "\<forall>(u, m) \<in> set us. (case m of Fin c \<Rightarrow> 0 \<le> c | _ \<Rightarrow> False)"
    and "scan_units us t = Some (Inr v)"
  shows "\<not> flt v (Fin 0)"
  using assms(2,3)
proof (induction us)
  case Nil
  then show ?case by simp
next
  case (Cons um us)
  obtain u m where um: "um = (u, m)" by (cases um)
  from Cons.prems(1) um obtain c where c: "m = Fin c" "0 \<le> c"
    by (cases m) auto
  show ?case
  proof (cases "endswith t u")
    case True
    with Cons.prems(2) um obtain x where
        x: "float_or_input_error (removesuffix t u) t ''distance'' = Inr x" and v: "v = fmul x m"
      by (auto simp add: ebind_def split: sum.splits)
    have "set (removesuffix t u) \<subseteq> set t"
      by (auto simp add: removesuffix_def dest: in_set_takeD)
    with assms(1) have "CHR ''-'' \<notin> set (removesuffix t u)" by blast
    then have "\<not> flt x (Fin 0)" using x by (rule float_or_input_error_not_negative)
    then show ?thesis unfolding v c(1) using c(2) by (rule fmul_not_negative)
  next
    case False
    with Cons um show ?thesis by simp
  qed
qed

lemma units_nonneg:
  "\<forall>(u, m) \<in> set DISTANCE_UNITS. (case m of Fin c \<Rightarrow> 0 \<le> c | _ \<Rightarrow> False)"
  by (simp add: DISTANCE_UNITS_def)

lemma distance_not_negative:
  assumes "CHR ''-'' \<notin> set s" and "distance_str_to_km s = Inr v"
  shows "\<not> flt v (Fin 0)"
proof -
  let ?t = "strip (lower s)"
  have n: "CHR ''-'' \<notin> set ?t" using assms(1) lower_no_minus strip_subset by blast
  show ?thesis
  proof (cases "map_of DISTANCE_UNITS ?t")
    case (Some w)
    then have "(?t, w) \<in> set DISTANCE_UNITS" by (rule map_of_SomeD)
    then obtain c where "w = Fin c" "0 \<le> c" using units_nonneg by (cases w) auto
    moreover have "v = w" using assms(2) Some by (simp add: distance_str_to_km_def Let_def)
    ultimately show ?thesis by simp
  next
    case None
    show ?thesis
    proof (cases "scan_units DISTANCE_UNITS ?t")
      case (Some r)
      with None assms(2) have "scan_units DISTANCE_UNITS ?t = Some (Inr v)"
        by (simp add: distance_str_to_km_def Let_def)
      with n units_nonneg show ?thesis by (rule scan_units_not_negative)
    next
      case inner: None
      with None assms(2) have "float_or_input_error ?t ?t ''distance'' = Inr v"
        by (simp add: distance_str_to_km_def Let_def)
      with n show ?thesis by (rule float_or_input_error_not_negative)
    qed
  qed
qed

text \<open>
  Claim C6, as amended. For a text without a minus sign, a value returned by
  \<open>distance_str_to_km\<close>, \<open>time_str_to_minutes\<close> or \<open>pace_str_to_minutes\<close> is never
  negative: \<open>v < 0\<close> is false for it (it is non-negative, positive infinity or NaN).
\<close>

theorem parsers_not_negative:
  assumes "CHR ''-'' \<notin> set s"
    and "distance_str_to_km s = Inr v \<or> time_str_to_minutes s = Inr v
         \<or> pace_str_to_minutes s = Inr v"
  shows "\<not> flt v (Fin 0)"
  using assms distance_not_negative time_not_negative pace_not_negative by blast

theorem parsers_not_negative_witness:
  "CHR ''-'' \<notin> set ''1h30m20s''
   \<and> time_str_to_minutes ''1h30m20s'' = Inr (Fin (271 / 3))
   \<and> \<not> flt (Fin (271 / 3)) (Fin 0)"
proof -
  have h1: "CHR ''-'' \<notin> set ''1h30m20s''" by simp
  have h2: "time_str_to_minutes ''1h30m20s'' = Inr (Fin (271 / 3))" by code_simp
  show ?thesis
    using h1 h2 parsers_not_negative [where s = "''1h30m20s''" and v = "Fin (271 / 3)"]
    by blast
qed

text \<open>
  Claim C6 as stated: the parsers return a negative value for \<open>-5\<close>, an infinity for
  \<open>inf\<close> and NaN for \<open>nan\<close>.
\<close>

theorem parsers_range_counterexample:
  "distance_str_to_km ''-5'' = Inr (Fin (- 5)) \<and> flt (Fin (- 5)) (Fin 0)
   \<and> time_str_to_minutes ''inf'' = Inr PInf
   \<and> pace_str_to_minutes ''nan'' = Inr NaN"
  by code_simp

end
